theory Spec2Isabelle
  imports
    Complex_Main
    "HOL-Library.Word"
    "HOL-Library.Char_ord"
    "HOL-Library.List_Lexorder"
begin

section \<open>The retail dashboard script (dashboard.py)\<close>

text \<open>
  The script is one straight run: read the CSV file, clean it, split it into sales and
  returns, stop when there are no sales, restrict both frames to the selected countries
  and derive the figures of the charts.  A data frame is a list of rows in positional
  order; every row carries its index label (field \<open>Index\<close>), since pandas aligns a
  column assignment on labels and not on positions.

  Numbers.  The column \<open>Quantity\<close> holds 64-bit signed integers, as pandas stores a
  column of whole numbers (\<open>int64\<close>): comparisons are signed and \<open>abs\<close> wraps around.
  Prices and every amount computed from them are exact rationals; the rounding of
  binary floating point is left aside, and a division that does not give a finite number
  (by a zero divisor) is \<open>None\<close>.  A timestamp is a whole number of seconds since
  1970-01-01 00:00:00; the bounds of the representable dates are left aside.

  Inputs.  The outcome of reading the file and the list of countries picked in the
  sidebar are the two inputs of a run.  Every field of a raw row is present except the
  description and the customer identifier, which may be missing.
\<close>

subsection \<open>Rows\<close>

type_synonym int64 = "64 word"

type_synonym timestamp = int

record raw_row =
  raw_Invoice :: string
  raw_StockCode :: string
  raw_Description :: "string option"
  raw_Quantity :: int64
  raw_InvoiceDate :: timestamp
  raw_Price :: rat
  raw_Customer_ID :: "rat option"
  raw_Country :: string

record txn =
  Index :: nat
  Invoice :: string
  StockCode :: string
  Description :: "string option"
  Quantity :: int64
  InvoiceDate :: timestamp
  Price :: rat
  Customer_ID :: string
  Country :: string
  TotalAmount :: rat
  MonthYear :: string
  Hour :: int
  DayOfWeek :: string

subsection \<open>Library operations the script calls\<close>

text \<open>\<open>str\<close> of a whole number: decimal digits, a minus sign in front when negative.\<close>

definition digit_char :: "int \<Rightarrow> char" where
  "digit_char d = char_of (48 + d)"

function str_digits :: "int \<Rightarrow> string" where
  "str_digits n =
     (if n < 10 then [digit_char n] else str_digits (n div 10) @ [digit_char (n mod 10)])"
  by pat_completeness auto
termination
  by (relation "measure nat") auto

declare str_digits.simps [simp del]

definition str_int :: "int \<Rightarrow> string" where
  "str_int i = (if i < 0 then CHR ''-'' # str_digits (- i) else str_digits i)"

text \<open>\<open>astype(int)\<close> on a float cuts the fraction off, towards zero.\<close>

definition astype_int :: "rat \<Rightarrow> int" where
  "astype_int x = (if 0 \<le> x then \<lfloor>x\<rfloor> else \<lceil>x\<rceil>)"

text \<open>The calendar: day number, hour and weekday name of a timestamp, and its year and
  month (the civil date of a day number, counted in eras of 400 years from 0000-03-01).\<close>

definition one_day :: int where
  "one_day = 86400"

definition day_number :: "timestamp \<Rightarrow> int" where
  "day_number t = t div one_day"

definition hour :: "timestamp \<Rightarrow> int" where
  "hour t = (t mod one_day) div 3600"

definition day_names :: "string list" where
  "day_names = [''Monday'', ''Tuesday'', ''Wednesday'', ''Thursday'', ''Friday'',
     ''Saturday'', ''Sunday'']"

definition day_name :: "timestamp \<Rightarrow> string" where
  "day_name t = day_names ! nat ((day_number t + 3) mod 7)"

definition year_month :: "int \<Rightarrow> int \<times> int" where
  "year_month z =
     (let z' = z + 719468;
          era = z' div 146097;
          doe = z' - era * 146097;
          yoe = (doe - doe div 1460 + doe div 36524 - doe div 146096) div 365;
          doy = doe - (365 * yoe + yoe div 4 - yoe div 100);
          mp = (5 * doy + 2) div 153;
          m = (if mp < 10 then mp + 3 else mp - 9);
          y = yoe + era * 400 + (if m \<le> 2 then 1 else 0)
      in (y, m))"

definition strftime_Y_m :: "timestamp \<Rightarrow> string" where
  "strftime_Y_m t =
     (case year_month (day_number t) of
        (y, m) \<Rightarrow> str_int y @ ''-'' @ (if m < 10 then ''0'' else '''') @ str_int m)"

text \<open>Series operations: the number of distinct values, the maximum (\<open>None\<close> is the
  \<open>NaT\<close> of an empty column), the running sum, and a division of floats.\<close>

definition nunique :: "'a list \<Rightarrow> nat" where
  "nunique xs = length (remdups xs)"

fun series_max :: "int list \<Rightarrow> int option" where
  "series_max [] = None"
| "series_max (x # xs) = (case series_max xs of None \<Rightarrow> Some x | Some m \<Rightarrow> Some (max x m))"

fun cumsum_from :: "rat \<Rightarrow> rat list \<Rightarrow> rat list" where
  "cumsum_from acc [] = []"
| "cumsum_from acc (x # xs) = (acc + x) # cumsum_from (acc + x) xs"

definition cumsum :: "rat list \<Rightarrow> rat list" where
  "cumsum xs = cumsum_from 0 xs"

definition fdiv :: "rat \<Rightarrow> rat \<Rightarrow> rat option" where
  "fdiv a b = (if b = 0 then None else Some (a / b))"

text \<open>\<open>groupby(key)\<close>: one group for each distinct key, the groups in ascending order of
  the key (strings compare character by character), the rows of a group in their order
  in the frame.  \<open>reindex\<close> looks each new label up and gives \<open>None\<close> (NaN) where the
  series has no such label.\<close>

definition groupby :: "('a \<Rightarrow> 'k::linorder) \<Rightarrow> 'a list \<Rightarrow> ('k \<times> 'a list) list" where
  "groupby key df = map (\<lambda>k. (k, filter (\<lambda>r. key r = k) df)) (sort (remdups (map key df)))"

definition reindex :: "'k list \<Rightarrow> ('k \<times> 'v) list \<Rightarrow> ('k \<times> 'v option) list" where
  "reindex labels s = map (\<lambda>k. (k, map_of s k)) labels"

definition mean :: "rat list \<Rightarrow> rat option" where
  "mean xs = fdiv (sum_list xs) (of_nat (length xs))"

subsection \<open>load_data\<close>

text \<open>What \<open>pd.read_csv\<close> does: it returns the rows of the file, labelled 0, 1, 2, ... in
  file order, or raises.\<close>

datatype exn = FileNotFoundError | PermissionError | EmptyDataError

type_synonym read_csv_result = "exn + raw_row list"

definition abs64 :: "int64 \<Rightarrow> int64" where
  "abs64 q = (if q <s 0 then - q else q)"

definition clean_row :: "nat \<times> raw_row \<Rightarrow> txn option" where
  "clean_row p =
     (case p of (i, r) \<Rightarrow>
        (case raw_Customer_ID r of
           None \<Rightarrow> None
         | Some c \<Rightarrow>
             Some \<lparr> Index = i,
                    Invoice = raw_Invoice r,
                    StockCode = raw_StockCode r,
                    Description = raw_Description r,
                    Quantity = raw_Quantity r,
                    InvoiceDate = raw_InvoiceDate r,
                    Price = raw_Price r,
                    Customer_ID = str_int (astype_int c),
                    Country = raw_Country r,
                    TotalAmount = of_int (sint (raw_Quantity r)) * raw_Price r,
                    MonthYear = strftime_Y_m (raw_InvoiceDate r),
                    Hour = hour (raw_InvoiceDate r),
                    DayOfWeek = day_name (raw_InvoiceDate r) \<rparr>))"

definition df_clean :: "raw_row list \<Rightarrow> txn list" where
  "df_clean df = List.map_filter clean_row (enumerate 0 df)"

definition split_sales :: "txn list \<Rightarrow> txn list" where
  "split_sales c = filter (\<lambda>t. 0 <s Quantity t) c"

definition split_returns :: "txn list \<Rightarrow> txn list" where
  "split_returns c =
     map (\<lambda>t. t\<lparr>Quantity := abs64 (Quantity t)\<rparr>) (filter (\<lambda>t. Quantity t <s 0) c)"

definition load_data :: "read_csv_result \<Rightarrow> exn + (txn list \<times> txn list)" where
  "load_data csv =
     (case csv of
        Inl FileNotFoundError \<Rightarrow> Inr ([], [])
      | Inl e \<Rightarrow> Inl e
      | Inr df \<Rightarrow> Inr (split_sales (df_clean df), split_returns (df_clean df)))"

subsection \<open>The country filter\<close>

text \<open>The options of the sidebar's selection box are the countries of the sales frame;
  \<open>selected_countries\<close> is what the user picked, an empty list when nothing is picked.\<close>

definition all_countries :: "txn list \<Rightarrow> string list" where
  "all_countries df_sales = sort (remdups (map Country df_sales))"

definition isin :: "string list \<Rightarrow> txn \<Rightarrow> bool" where
  "isin selected_countries t = (Country t \<in> set selected_countries)"

definition df_filtered :: "string list \<Rightarrow> txn list \<Rightarrow> txn list" where
  "df_filtered selected_countries df_sales =
     (if selected_countries \<noteq> [] then filter (isin selected_countries) df_sales
      else df_sales)"

definition df_returns_filtered :: "string list \<Rightarrow> txn list \<Rightarrow> txn list" where
  "df_returns_filtered selected_countries df_returns =
     (if selected_countries \<noteq> [] then filter (isin selected_countries) df_returns
      else df_returns)"

subsection \<open>KPI metrics\<close>

definition total_revenue :: "txn list \<Rightarrow> rat" where
  "total_revenue df = sum_list (map TotalAmount df)"

definition total_orders :: "txn list \<Rightarrow> nat" where
  "total_orders df = nunique (map Invoice df)"

text \<open>The quotient is a division of floats, computed only when there is an order;
  \<open>None\<close> would be the outcome of dividing by zero.\<close>

definition avg_order_value :: "txn list \<Rightarrow> rat option" where
  "avg_order_value df =
     (if total_orders df > 0 then fdiv (total_revenue df) (of_nat (total_orders df))
      else Some 0)"

subsection \<open>Q3: sales by country, and Q10: mean sale by weekday\<close>

definition country_sales :: "txn list \<Rightarrow> (string \<times> rat) list" where
  "country_sales df_sales =
     map (\<lambda>(k, g). (k, sum_list (map TotalAmount g))) (groupby Country df_sales)"

definition days_order :: "string list" where
  "days_order = [''Monday'', ''Tuesday'', ''Wednesday'', ''Thursday'', ''Friday'', ''Sunday'']"

definition weekday_sales :: "txn list \<Rightarrow> (string \<times> rat option) list" where
  "weekday_sales df =
     map (\<lambda>(k, v). (k, Option.bind v id))
       (reindex days_order
          (map (\<lambda>(k, g). (k, mean (map TotalAmount g))) (groupby DayOfWeek df)))"

subsection \<open>Q7: recency, frequency and monetary value of each customer\<close>

text \<open>The frame \<open>rfm\<close> as it stands after \<open>reset_index\<close> and the renaming of its columns:
  one row for each customer, in ascending order of the identifier, labelled 0, 1, 2, ...\<close>

record rfm_row =
  rfm_Index :: nat
  rfm_Customer_ID :: string
  Recency :: "int option"
  Frequency :: nat
  Monetary :: rat

definition snapshot_date :: "txn list \<Rightarrow> timestamp option" where
  "snapshot_date df = map_option (\<lambda>m. m + one_day) (series_max (map InvoiceDate df))"

definition timedelta_days :: "timestamp option \<Rightarrow> timestamp option \<Rightarrow> int option" where
  "timedelta_days a b =
     (case a of None \<Rightarrow> None
      | Some x \<Rightarrow> (case b of None \<Rightarrow> None | Some y \<Rightarrow> Some ((x - y) div one_day)))"

definition rfm_agg :: "timestamp option \<Rightarrow> nat \<times> string \<times> txn list \<Rightarrow> rfm_row" where
  "rfm_agg snap p =
     (case p of (i, k, g) \<Rightarrow>
        \<lparr> rfm_Index = i,
          rfm_Customer_ID = k,
          Recency = timedelta_days snap (series_max (map InvoiceDate g)),
          Frequency = nunique (map Invoice g),
          Monetary = sum_list (map TotalAmount g) \<rparr>)"

definition rfm :: "txn list \<Rightarrow> rfm_row list" where
  "rfm df = map (rfm_agg (snapshot_date df)) (enumerate 0 (groupby Customer_ID df))"

subsection \<open>Q9: the Pareto table\<close>

text \<open>\<open>sort_values\<close> keeps each row's label; rows of equal monetary value stay in
  the order they had, and no property below depends on the order among them.  The two
  cumulative columns are computed from the sorted frame itself and so line up with its
  rows.  The rank column is assigned from a fresh series labelled 0, 1, ..., n - 1: the
  assignment gives each row the entry found under the row's own label (\<open>None\<close>, a NaN,
  when the series has no such label).\<close>

record pareto_row = rfm_row +
  Cumulative_Revenue :: rat
  Revenue_Pct :: "rat option"
  Customer_Rank_Pct :: "rat option"

definition sort_values_desc :: "rfm_row list \<Rightarrow> rfm_row list" where
  "sort_values_desc rows = sort_key (\<lambda>r. - Monetary r) rows"

definition rank_series :: "nat \<Rightarrow> rat list" where
  "rank_series n = map (\<lambda>k. 100 * (of_nat k + 1) / of_nat n) [0..<n]"

definition at_label :: "rat list \<Rightarrow> nat \<Rightarrow> rat option" where
  "at_label s k = (if k < length s then Some (s ! k) else None)"

definition pareto_row_of :: "rat \<Rightarrow> rat list \<Rightarrow> rfm_row \<times> rat \<Rightarrow> pareto_row" where
  "pareto_row_of grand ranks p =
     (case p of (r, c) \<Rightarrow>
        rfm_row.extend r
          \<lparr> Cumulative_Revenue = c,
            Revenue_Pct = fdiv (100 * c) grand,
            Customer_Rank_Pct = at_label ranks (rfm_Index r) \<rparr>)"

definition rfm_sorted :: "rfm_row list \<Rightarrow> pareto_row list" where
  "rfm_sorted rows =
     (let s = sort_values_desc rows
      in map (pareto_row_of (sum_list (map Monetary s)) (rank_series (length s)))
           (zip s (cumsum (map Monetary s))))"

subsection \<open>The whole run\<close>

text \<open>A run raises what \<open>load_data\<close> raises, stops when there are no sales, or
  goes on to the charts.  The record holds the figures the script has computed when it
  reaches the RFM table: the filtered sales (also offered for download) and returns, the
  three KPI metrics, the sales by country of Q3 and the RFM table of Q7.  The widgets
  and the chart calls are not embedded, nor is the quartile column \<open>Segment\<close> that
  the script adds to the RFM table next; \<open>weekday_sales\<close> and \<open>rfm_sorted\<close> above are
  the tables it computes after that for Q10 and Q9, from the filtered sales and from the
  RFM table.\<close>

record charts =
  csv_data :: "txn list"
  returns_data :: "txn list"
  kpi_total_revenue :: rat
  kpi_total_orders :: nat
  kpi_avg_order_value :: "rat option"
  q3_country_sales :: "(string \<times> rat) list"
  q7_rfm :: "rfm_row list"

datatype view = Raised exn | Stopped | Rendered charts

definition render :: "string list \<Rightarrow> txn list \<Rightarrow> txn list \<Rightarrow> charts" where
  "render selected_countries df_sales df_returns =
     (let f = df_filtered selected_countries df_sales
      in \<lparr> csv_data = f,
           returns_data = df_returns_filtered selected_countries df_returns,
           kpi_total_revenue = total_revenue f,
           kpi_total_orders = total_orders f,
           kpi_avg_order_value = avg_order_value f,
           q3_country_sales = country_sales df_sales,
           q7_rfm = rfm f \<rparr>)"

definition dashboard :: "read_csv_result \<Rightarrow> string list \<Rightarrow> view" where
  "dashboard csv selected_countries =
     (case load_data csv of
        Inl e \<Rightarrow> Raised e
      | Inr (df_sales, df_returns) \<Rightarrow>
          if df_sales = [] then Stopped
          else Rendered (render selected_countries df_sales df_returns))"

subsection \<open>Example data\<close>

text \<open>The three rows of the specification's end-to-end example, and what \<open>load_data\<close>
  makes of them.\<close>

definition example_rows :: "raw_row list" where
  "example_rows =
     [\<lparr> raw_Invoice = ''1'', raw_StockCode = ''85048'', raw_Description = Some ''MUG'',
         raw_Quantity = 2, raw_InvoiceDate = 1672531200, raw_Price = 10,
         raw_Customer_ID = Some 100, raw_Country = ''UK'' \<rparr>,
      \<lparr> raw_Invoice = ''1'', raw_StockCode = ''85048'', raw_Description = Some ''MUG'',
         raw_Quantity = - 1, raw_InvoiceDate = 1672617600, raw_Price = 10,
         raw_Customer_ID = Some 100, raw_Country = ''UK'' \<rparr>,
      \<lparr> raw_Invoice = ''2'', raw_StockCode = ''22041'', raw_Description = None,
         raw_Quantity = 3, raw_InvoiceDate = 1672704000, raw_Price = 5,
         raw_Customer_ID = None, raw_Country = ''UK'' \<rparr>]"

definition example_sales :: "txn list" where
  "example_sales =
     [\<lparr> Index = 0, Invoice = ''1'', StockCode = ''85048'', Description = Some ''MUG'',
         Quantity = 2, InvoiceDate = 1672531200, Price = 10, Customer_ID = ''100'',
         Country = ''UK'', TotalAmount = 20, MonthYear = ''2023-01'', Hour = 0,
         DayOfWeek = ''Sunday'' \<rparr>]"

definition example_returns :: "txn list" where
  "example_returns =
     [\<lparr> Index = 1, Invoice = ''1'', StockCode = ''85048'', Description = Some ''MUG'',
         Quantity = 1, InvoiceDate = 1672617600, Price = 10, Customer_ID = ''100'',
         Country = ''UK'', TotalAmount = - 10, MonthYear = ''2023-01'', Hour = 0,
         DayOfWeek = ''Monday'' \<rparr>]"

text \<open>A returned line whose quantity is the least 64-bit integer.\<close>

definition least_quantity_row :: raw_row where
  "least_quantity_row =
     \<lparr> raw_Invoice = ''C3'', raw_StockCode = ''85048'', raw_Description = Some ''MUG'',
       raw_Quantity = - 9223372036854775808, raw_InvoiceDate = 1672617600, raw_Price = 10,
       raw_Customer_ID = Some 100, raw_Country = ''United Kingdom'' \<rparr>"

text \<open>A small file with two countries that sell, a country that only returns, a line
  without a customer and a sale on a Saturday.\<close>

definition example_shop :: "raw_row list" where
  "example_shop =
     [\<lparr> raw_Invoice = ''536365'', raw_StockCode = ''85123A'', raw_Description = Some ''HOLDER'',
         raw_Quantity = 6, raw_InvoiceDate = 1291191960, raw_Price = 51 / 20,
         raw_Customer_ID = Some 17850, raw_Country = ''United Kingdom'' \<rparr>,
      \<lparr> raw_Invoice = ''536370'', raw_StockCode = ''22728'', raw_Description = Some ''CLOCK'',
         raw_Quantity = 24, raw_InvoiceDate = 1291456800, raw_Price = 15 / 4,
         raw_Customer_ID = Some 12583, raw_Country = ''France'' \<rparr>,
      \<lparr> raw_Invoice = ''C536379'', raw_StockCode = ''D'', raw_Description = Some ''Discount'',
         raw_Quantity = - 1, raw_InvoiceDate = 1291196460, raw_Price = 55 / 2,
         raw_Customer_ID = Some 14527, raw_Country = ''United Kingdom'' \<rparr>,
      \<lparr> raw_Invoice = ''536401'', raw_StockCode = ''22110'', raw_Description = Some ''BOTTLE'',
         raw_Quantity = 2, raw_InvoiceDate = 1291645800, raw_Price = 5,
         raw_Customer_ID = Some 17850, raw_Country = ''United Kingdom'' \<rparr>,
      \<lparr> raw_Invoice = ''536402'', raw_StockCode = ''21730'', raw_Description = None,
         raw_Quantity = 1, raw_InvoiceDate = 1291723200, raw_Price = 1,
         raw_Customer_ID = None, raw_Country = ''United Kingdom'' \<rparr>,
      \<lparr> raw_Invoice = ''536403'', raw_StockCode = ''22728'', raw_Description = Some ''CLOCK'',
         raw_Quantity = 3, raw_InvoiceDate = 1291547700, raw_Price = 4,
         raw_Customer_ID = Some 12583, raw_Country = ''France'' \<rparr>,
      \<lparr> raw_Invoice = ''C536404'', raw_StockCode = ''22728'', raw_Description = Some ''CLOCK'',
         raw_Quantity = - 2, raw_InvoiceDate = 1291392000, raw_Price = 4,
         raw_Customer_ID = Some 12791, raw_Country = ''Malta'' \<rparr>]"

text \<open>Two customers, the second of whom spends more than the first.\<close>

definition example_two_customers :: "raw_row list" where
  "example_two_customers =
     [\<lparr> raw_Invoice = ''1'', raw_StockCode = ''85048'', raw_Description = Some ''MUG'',
         raw_Quantity = 1, raw_InvoiceDate = 1672531200, raw_Price = 10,
         raw_Customer_ID = Some 100, raw_Country = ''United Kingdom'' \<rparr>,
      \<lparr> raw_Invoice = ''2'', raw_StockCode = ''22041'', raw_Description = Some ''LAMP'',
         raw_Quantity = 1, raw_InvoiceDate = 1672531200, raw_Price = 30,
         raw_Customer_ID = Some 200, raw_Country = ''United Kingdom'' \<rparr>]"



text \<open>The frame the charts of such a file are computed from, under the selection the
  sidebar starts with.\<close>

definition shown_sales :: "raw_row list \<Rightarrow> txn list" where
  "shown_sales df = df_filtered [''United Kingdom''] (split_sales (df_clean df))"

definition example_shop_sales :: "txn list" where
  "example_shop_sales = split_sales (df_clean example_shop)"

definition example_shop_returns :: "txn list" where
  "example_shop_returns = split_returns (df_clean example_shop)"

section \<open>Properties\<close>

subsection \<open>Cleaning and the split into sales and returns\<close>

lemma clean_row_Some:
  "clean_row (i, r) = Some t \<Longrightarrow>
     raw_Customer_ID r \<noteq> None \<and> Index t = i \<and> Quantity t = raw_Quantity r"
  by (auto simp: clean_row_def split: option.splits)

lemma set_map_filter: "set (List.map_filter f xs) = {y. \<exists>x \<in> set xs. f x = Some y}"
  by (induction xs) (auto split: option.splits)

lemma df_clean_iff:
  "t \<in> set (df_clean df) \<longleftrightarrow> (\<exists>i < length df. clean_row (i, df ! i) = Some t)"
  by (auto simp: df_clean_def set_map_filter in_set_enumerate_eq Bex_def)

lemma df_clean_Index:
  assumes "t \<in> set (df_clean df)"
  shows "Index t < length df \<and> clean_row (Index t, df ! Index t) = Some t
         \<and> raw_Customer_ID (df ! Index t) \<noteq> None"
proof -
  from assms obtain i where i: "i < length df" "clean_row (i, df ! i) = Some t"
    by (auto simp: df_clean_iff)
  from clean_row_Some [OF i(2)] have "Index t = i" "raw_Customer_ID (df ! i) \<noteq> None"
    by simp_all
  with i show ?thesis by simp
qed

lemma Index_inj_df_clean:
  assumes "t \<in> set (df_clean df)" "u \<in> set (df_clean df)" "Index t = Index u"
  shows "t = u"
proof -
  have "clean_row (Index t, df ! Index t) = Some t"
    using df_clean_Index [OF assms(1)] by blast
  moreover have "clean_row (Index u, df ! Index u) = Some u"
    using df_clean_Index [OF assms(2)] by blast
  ultimately have "Some t = Some u" by (simp only: assms(3))
  then show ?thesis by (simp only: option.inject)
qed

lemma split_sales_iff: "t \<in> set (split_sales c) \<longleftrightarrow> t \<in> set c \<and> 0 <s Quantity t"
  by (simp add: split_sales_def)

lemma split_returns_iff:
  "t \<in> set (split_returns c) \<longleftrightarrow>
     (\<exists>u \<in> set c. Quantity u <s 0 \<and> t = u\<lparr>Quantity := abs64 (Quantity u)\<rparr>)"
  by (auto simp: split_returns_def)

lemma load_data_Inr [simp]:
  "load_data (Inr df) = Inr (split_sales (df_clean df), split_returns (df_clean df))"
  by (simp add: load_data_def)

lemma load_data_Inl:
  "load_data (Inl e) = (if e = FileNotFoundError then Inr ([], []) else Inl e)"
  by (cases e) (simp_all add: load_data_def)

lemma example_load: "load_data (Inr example_rows) = Inr (example_sales, example_returns)"
  by code_simp

text \<open>Signed 64-bit arithmetic: \<open>abs\<close> gives the magnitude of every negative quantity
  but the least one, which it leaves as it is.\<close>

lemma sint_least:
  assumes "sint (q::int64) = - 9223372036854775808"
  shows "q = - 9223372036854775808"
proof -
  have "sint (- 9223372036854775808 :: int64) = - 9223372036854775808" by simp
  with assms have "sint q = sint (- 9223372036854775808 :: int64)" by simp
  then show ?thesis by (simp only: signed_word_eqI)
qed

lemma abs64_positive:
  assumes neg: "q <s 0" and nm: "q \<noteq> - 9223372036854775808"
  shows "0 <s abs64 q \<and> sint (abs64 q) = \<bar>sint q\<bar>"
proof -
  have lo: "- (2 ^ 63) \<le> sint q" using sint_ge [of q] by simp
  have ne: "sint q \<noteq> - 9223372036854775808" using nm sint_least by blast
  have n: "sint q < 0" using neg by (simp add: word_sless_alt)
  have "sint (- q) = signed_take_bit 63 (- sint q)" by (simp add: sint_word_ariths)
  also have "\<dots> = - sint q" using lo ne n by (intro signed_take_bit_int_eq_self) simp_all
  finally show ?thesis using n neg by (simp add: abs64_def word_sless_alt)
qed

lemma sign_cases:
  "\<not> (0 <s (q::int64) \<and> q <s 0) \<and> \<not> (0 <s (0::int64)) \<and> \<not> ((0::int64) <s 0)"
  by (auto simp: word_sless_alt)

text \<open>The split by the sign of the quantity.  Every cleaned row with a positive quantity
  is a sale; every cleaned row with a negative quantity is a return, its quantity
  replaced by \<open>abs\<close> of it; no row label is in both frames; a row with quantity 0 is in
  neither; and the quantity of a return is positive unless it was the least 64-bit
  integer.\<close>

lemma load_data_partition:
  assumes "load_data (Inr df) = Inr (df_sales, df_returns)"
  shows "(\<forall>t \<in> set (df_clean df). 0 <s Quantity t \<longrightarrow> t \<in> set df_sales)
       \<and> (\<forall>t \<in> set (df_clean df). Quantity t <s 0 \<longrightarrow>
             t\<lparr>Quantity := abs64 (Quantity t)\<rparr> \<in> set df_returns)
       \<and> Index ` set df_sales \<inter> Index ` set df_returns = {}
       \<and> (\<forall>t \<in> set (df_clean df). Quantity t = 0 \<longrightarrow>
             Index t \<notin> Index ` (set df_sales \<union> set df_returns))
       \<and> (\<forall>t \<in> set (df_clean df). Quantity t <s 0 \<longrightarrow>
             Quantity t \<noteq> - 9223372036854775808 \<longrightarrow> 0 <s abs64 (Quantity t))"
proof -
  let ?c = "df_clean df"
  from assms have s: "df_sales = split_sales ?c" and r: "df_returns = split_returns ?c"
    by simp_all
  have a: "\<forall>t \<in> set ?c. 0 <s Quantity t \<longrightarrow> t \<in> set df_sales"
    by (simp add: s split_sales_iff)
  have b: "\<forall>t \<in> set ?c. Quantity t <s 0 \<longrightarrow>
             t\<lparr>Quantity := abs64 (Quantity t)\<rparr> \<in> set df_returns"
    by (auto simp: r split_returns_iff)
  have src: "\<exists>u \<in> set ?c. Index u = Index t \<and> 0 <s Quantity u"
    if "t \<in> set df_sales" for t
    using that by (auto simp: s split_sales_iff)
  have srcr: "\<exists>u \<in> set ?c. Index u = Index t \<and> Quantity u <s 0"
    if "t \<in> set df_returns" for t
    using that by (auto simp: r split_returns_iff)
  have c: "Index ` set df_sales \<inter> Index ` set df_returns = {}"
  proof (rule ccontr)
    assume "Index ` set df_sales \<inter> Index ` set df_returns \<noteq> {}"
    then obtain t t' where t: "t \<in> set df_sales" "t' \<in> set df_returns" "Index t = Index t'"
      by auto
    from src [OF t(1)] obtain u where u: "u \<in> set ?c" "Index u = Index t" "0 <s Quantity u"
      by blast
    from srcr [OF t(2)] obtain v where v: "v \<in> set ?c" "Index v = Index t'" "Quantity v <s 0"
      by blast
    have "u = v" using Index_inj_df_clean [OF u(1) v(1)] u(2) v(2) t(3) by simp
    with u(3) v(3) sign_cases [of "Quantity u"] show False by simp
  qed
  have d: "\<forall>t \<in> set ?c. Quantity t = 0 \<longrightarrow>
             Index t \<notin> Index ` (set df_sales \<union> set df_returns)"
  proof (intro ballI impI notI)
    fix t assume t: "t \<in> set ?c" "Quantity t = 0"
      and "Index t \<in> Index ` (set df_sales \<union> set df_returns)"
    then obtain w where w: "w \<in> set df_sales \<union> set df_returns" "Index w = Index t"
      by (metis imageE)
    then obtain u where u: "u \<in> set ?c" "Index u = Index t"
        "0 <s Quantity u \<or> Quantity u <s 0"
      using src srcr by (metis Un_iff)
    have "u = t" using Index_inj_df_clean [OF u(1) t(1)] u(2) by simp
    with u(3) t(2) sign_cases [of 0] show False by simp
  qed
  have e: "\<forall>t \<in> set ?c. Quantity t <s 0 \<longrightarrow>
             Quantity t \<noteq> - 9223372036854775808 \<longrightarrow> 0 <s abs64 (Quantity t)"
    using abs64_positive by blast
  from a b c d e show ?thesis by (intro conjI)
qed

text \<open>Claim C1 says that every cleaned record with a negative quantity is in Returns
  with its quantity replaced by its positive absolute value.  Evaluated on a file whose
  only row returns the least 64-bit quantity, \<open>load_data\<close> puts the row among the returns
  and its quantity there is still negative: \<open>abs\<close> wraps around.\<close>

theorem load_data_least_quantity:
  "load_data (Inr [least_quantity_row])
     = Inr ([], split_returns (df_clean [least_quantity_row]))
   \<and> map (\<lambda>t. sint (Quantity t)) (split_returns (df_clean [least_quantity_row]))
     = [- 9223372036854775808]
   \<and> map (\<lambda>t. 0 <s Quantity t) (split_returns (df_clean [least_quantity_row])) = [False]"
  by code_simp

text \<open>Claim C2: no raw record whose customer identifier is absent yields a row of the
  Sales or the Returns frame that \<open>load_data\<close> produces; every row of either frame stems
  from a raw record with a customer identifier.  Rows are traced by their index label,
  which is the position of the raw record in the file.\<close>

theorem load_data_drops_null_customers:
  assumes "load_data (Inr df) = Inr (df_sales, df_returns)"
  shows "(\<forall>i < length df. raw_Customer_ID (df ! i) = None \<longrightarrow>
            i \<notin> Index ` (set df_sales \<union> set df_returns))
       \<and> (\<forall>t \<in> set df_sales \<union> set df_returns.
            Index t < length df \<and> raw_Customer_ID (df ! Index t) \<noteq> None)"
proof -
  from assms have s: "df_sales = split_sales (df_clean df)"
    and r: "df_returns = split_returns (df_clean df)" by simp_all
  have *: "Index t < length df \<and> raw_Customer_ID (df ! Index t) \<noteq> None"
    if "t \<in> set df_sales \<union> set df_returns" for t
    using that df_clean_Index [of _ df]
    by (auto simp: s r split_sales_iff split_returns_iff)
  then show ?thesis by blast
qed

theorem load_data_drops_null_customers_witness:
  "load_data (Inr example_rows) = Inr (example_sales, example_returns)
   \<and> raw_Customer_ID (example_rows ! 2) = None
   \<and> 2 \<notin> Index ` (set example_sales \<union> set example_returns)
   \<and> Index (hd example_sales) < length example_rows
   \<and> raw_Customer_ID (example_rows ! Index (hd example_sales)) \<noteq> None"
proof -
  have h: "load_data (Inr example_rows) = Inr (example_sales, example_returns)"
    by (rule example_load)
  have n: "raw_Customer_ID (example_rows ! 2) = None" "2 < length example_rows"
    by (simp_all add: example_rows_def)
  have m: "hd example_sales \<in> set example_sales \<union> set example_returns"
    by (simp add: example_sales_def)
  from load_data_drops_null_customers [OF h] n m show ?thesis using h by blast
qed

subsection \<open>The country filter\<close>

text \<open>Claim C7: the filter changes nothing when nothing is excluded.  With no country
  selected both frames come back as they are, and so they do when the selection is the
  set of all countries that occur in the data, that is in the sales or in the returns.\<close>

theorem filter_by_country_identity:
  "df_filtered [] df_sales = df_sales
   \<and> df_returns_filtered [] df_returns = df_returns
   \<and> (set selected_countries = Country ` (set df_sales \<union> set df_returns) \<longrightarrow>
        df_filtered selected_countries df_sales = df_sales
        \<and> df_returns_filtered selected_countries df_returns = df_returns)"
  by (auto simp: df_filtered_def df_returns_filtered_def isin_def filter_id_conv)

lemma example_shop_load:
  "load_data (Inr example_shop) = Inr (example_shop_sales, example_shop_returns)"
  by (simp add: example_shop_sales_def example_shop_returns_def)

theorem filter_by_country_identity_witness:
  "set [''France'', ''Malta'', ''United Kingdom'']
     = Country ` (set example_shop_sales \<union> set example_shop_returns)
   \<and> df_filtered [''France'', ''Malta'', ''United Kingdom''] example_shop_sales
     = example_shop_sales
   \<and> df_returns_filtered [''France'', ''Malta'', ''United Kingdom''] example_shop_returns
     = example_shop_returns"
proof -
  have "map Country (example_shop_sales @ example_shop_returns)
     = [''United Kingdom'', ''France'', ''United Kingdom'', ''France'', ''United Kingdom'',
        ''Malta'']"
    by code_simp
  then have "set (map Country (example_shop_sales @ example_shop_returns))
     = set [''United Kingdom'', ''France'', ''United Kingdom'', ''France'', ''United Kingdom'',
        ''Malta'']"
    by (rule arg_cong)
  then have h: "set [''France'', ''Malta'', ''United Kingdom'']
     = Country ` (set example_shop_sales \<union> set example_shop_returns)"
    by (simp add: image_Un insert_commute)
  note f = filter_by_country_identity [of example_shop_sales example_shop_returns
      "[''France'', ''Malta'', ''United Kingdom'']"]
  from f have "set [''France'', ''Malta'', ''United Kingdom'']
       = Country ` (set example_shop_sales \<union> set example_shop_returns) \<longrightarrow>
     df_filtered [''France'', ''Malta'', ''United Kingdom''] example_shop_sales
       = example_shop_sales
     \<and> df_returns_filtered [''France'', ''Malta'', ''United Kingdom''] example_shop_returns
       = example_shop_returns"
    by (elim conjE)
  with h show ?thesis by (intro conjI) (rule h, (erule impE, assumption, elim conjE, assumption)+)
qed

text \<open>The options the sidebar offers are the countries of the sales frame alone.
  Selecting all of them keeps every sale, but drops the returns of a country that has
  no sale: in the example file the return from Malta.\<close>

lemma df_filtered_all_countries:
  "df_filtered (all_countries df_sales) df_sales = df_sales"
  by (auto simp: df_filtered_def all_countries_def isin_def filter_id_conv)

lemma returns_outside_the_options:
  "df_filtered (all_countries example_shop_sales) example_shop_sales = example_shop_sales
   \<and> map Index example_shop_returns = [2, 6]
   \<and> map Index (df_returns_filtered (all_countries example_shop_sales) example_shop_returns)
     = [2]"
  by code_simp

subsection \<open>KPI metrics\<close>

text \<open>Claim C3: the total revenue is the sum of \<open>TotalAmount\<close> over the sales, the
  number of orders is the number of distinct invoice identifiers, and the average order
  value is their quotient, except that it is 0 when there is no order; on an empty
  frame the three figures are 0 and no division by zero takes place.\<close>

theorem kpi_metrics:
  "total_revenue df = sum_list (map TotalAmount df)
   \<and> total_orders df = card (Invoice ` set df)
   \<and> (total_orders df = 0 \<longrightarrow> avg_order_value df = Some 0)
   \<and> (total_orders df \<noteq> 0 \<longrightarrow>
        avg_order_value df = Some (total_revenue df / of_nat (total_orders df)))
   \<and> total_revenue [] = 0 \<and> total_orders [] = 0 \<and> avg_order_value [] = Some 0"
  by (simp add: total_revenue_def total_orders_def avg_order_value_def nunique_def
      fdiv_def length_remdups_card_conv)

theorem kpi_metrics_witness:
  "total_orders example_sales \<noteq> 0
   \<and> total_revenue example_sales = 20
   \<and> total_orders example_sales = 1
   \<and> avg_order_value example_sales = Some 20
   \<and> total_orders [] = 0 \<and> avg_order_value [] = Some 0"
proof -
  have o: "total_orders example_sales = 1" by code_simp
  have r: "total_revenue example_sales = 20" by code_simp
  note k = kpi_metrics [of example_sales]
  from k have "total_orders example_sales \<noteq> 0 \<longrightarrow>
      avg_order_value example_sales
        = Some (total_revenue example_sales / of_nat (total_orders example_sales))"
    by (elim conjE)
  then have a: "avg_order_value example_sales = Some 20" by (simp add: o r)
  from k have e: "total_orders [] = 0 \<and> avg_order_value [] = Some 0" by (elim conjE) simp
  from o r a e show ?thesis by simp
qed

subsection \<open>Grouping\<close>

lemma map_fst_groupby: "map fst (groupby key df) = sort (remdups (map key df))"
  by (simp add: groupby_def comp_def)

lemma distinct_groupby: "distinct (map fst (groupby key df))"
  by (simp add: map_fst_groupby)

lemma map_of_groupby:
  "map_of (groupby key df) k =
     (if k \<in> key ` set df then Some (filter (\<lambda>r. key r = k) df) else None)"
  by (simp add: groupby_def map_of_map_restrict restrict_map_def)

lemma set_groupby:
  "set (groupby key df) = (\<lambda>k. (k, filter (\<lambda>r. key r = k) df)) ` key ` set df"
  by (simp add: groupby_def)

lemma mean_Cons: "mean (x # xs) = Some ((x + sum_list xs) / (1 + of_nat (length xs)))"
proof -
  have "(1::rat) + of_nat (length xs) \<noteq> 0"
    by (metis of_nat_Suc of_nat_0_eq_iff nat.distinct(2) of_nat_eq_iff semiring_1_class.of_nat_0)
  then show ?thesis by (simp add: mean_def fdiv_def)
qed

lemma mean_Nil: "mean [] = None"
  by (simp add: mean_def fdiv_def)

subsection \<open>Q3: sales by country\<close>

lemma map_of_country_sales:
  "map_of (country_sales df_sales) k =
     (if k \<in> Country ` set df_sales
      then Some (sum_list (map TotalAmount (filter (\<lambda>t. Country t = k) df_sales)))
      else None)"
  by (simp add: country_sales_def map_of_map map_of_groupby)

text \<open>Claim C9: the sales by country of the map (Q3) are computed from the unfiltered
  sales frame.  If a run renders with one selection of countries, then the run on the
  same file with any other selection renders too, and both show the same sales by
  country: those of the sales frame that \<open>load_data\<close> returned.\<close>

theorem country_sales_ignores_selection:
  assumes "dashboard csv selected1 = Rendered c1"
  shows "\<exists>c2 df_sales df_returns.
           dashboard csv selected2 = Rendered c2
           \<and> q3_country_sales c2 = q3_country_sales c1
           \<and> load_data csv = Inr (df_sales, df_returns)
           \<and> q3_country_sales c1 = country_sales df_sales"
proof (cases "load_data csv")
  case (Inl e)
  with assms show ?thesis by (simp add: dashboard_def)
next
  case (Inr p)
  obtain s r where p: "p = (s, r)" by (cases p)
  from assms Inr p have ne: "s \<noteq> []" and c1: "c1 = render selected1 s r"
    by (auto simp: dashboard_def split: if_splits)
  have "dashboard csv selected2 = Rendered (render selected2 s r)"
    using Inr p ne by (simp add: dashboard_def)
  moreover have "q3_country_sales (render selected2 s r) = country_sales s"
    by (simp add: render_def Let_def)
  moreover have "q3_country_sales c1 = country_sales s"
    by (simp add: c1 render_def Let_def)
  ultimately show ?thesis using Inr p by simp
qed

theorem country_sales_ignores_selection_witness:
  "dashboard (Inr example_shop) [''France'']
     = Rendered (render [''France''] example_shop_sales example_shop_returns)
   \<and> (\<exists>c2. dashboard (Inr example_shop) [''United Kingdom''] = Rendered c2
         \<and> q3_country_sales c2 = [(''France'', 102), (''United Kingdom'', 253 / 10)])
   \<and> map Index (csv_data (render [''France''] example_shop_sales example_shop_returns))
     = [1, 5]"
proof -
  have ne: "example_shop_sales \<noteq> []" by code_simp
  then have h: "dashboard (Inr example_shop) [''France'']
     = Rendered (render [''France''] example_shop_sales example_shop_returns)"
    unfolding dashboard_def example_shop_load by simp
  have q: "q3_country_sales (render [''France''] example_shop_sales example_shop_returns)
            = [(''France'', 102), (''United Kingdom'', 253 / 10)]"
    by code_simp
  have i: "map Index (csv_data (render [''France''] example_shop_sales example_shop_returns))
            = [1, 5]"
    by code_simp
  from country_sales_ignores_selection [OF h, of "[''United Kingdom'']"]
  obtain c2 where "dashboard (Inr example_shop) [''United Kingdom''] = Rendered c2"
    "q3_country_sales c2
       = q3_country_sales (render [''France''] example_shop_sales example_shop_returns)"
    by blast
  then have "\<exists>c2. dashboard (Inr example_shop) [''United Kingdom''] = Rendered c2
         \<and> q3_country_sales c2 = [(''France'', 102), (''United Kingdom'', 253 / 10)]"
    unfolding q by blast
  with h i show ?thesis by (intro conjI)
qed

subsection \<open>Q10: mean sale by weekday\<close>

lemma weekday_sales_eq:
  "weekday_sales df =
     map (\<lambda>d. (d, mean (map TotalAmount (filter (\<lambda>t. DayOfWeek t = d) df)))) days_order"
proof -
  have "Option.bind (map_of (map (\<lambda>(k, g). (k, mean (map TotalAmount g))) (groupby DayOfWeek df)) d) id
        = mean (map TotalAmount (filter (\<lambda>t. DayOfWeek t = d) df))" for d
  proof (cases "d \<in> DayOfWeek ` set df")
    case True
    then show ?thesis by (simp add: map_of_map map_of_groupby)
  next
    case False
    then have "filter (\<lambda>t. DayOfWeek t = d) df = []" by (auto simp: filter_empty_conv)
    with False show ?thesis by (simp add: map_of_map map_of_groupby mean_Nil)
  qed
  then show ?thesis by (simp add: weekday_sales_def reindex_def comp_def)
qed

text \<open>Claim C10: whatever the filtered sales frame is, the weekday aggregate has exactly
  the six keys Monday, Tuesday, Wednesday, Thursday, Friday, Sunday in this order;
  Saturday is not among them, and the sales of a Saturday contribute to no entry: the
  result is the same with and without them.  Each entry is the mean \<open>TotalAmount\<close> of
  the sales of its day (\<open>None\<close>, a NaN, for a day without sales).\<close>

theorem weekday_sales_keys:
  "map fst (weekday_sales df)
     = [''Monday'', ''Tuesday'', ''Wednesday'', ''Thursday'', ''Friday'', ''Sunday'']
   \<and> ''Saturday'' \<notin> fst ` set (weekday_sales df)
   \<and> weekday_sales (filter (\<lambda>t. DayOfWeek t \<noteq> ''Saturday'') df) = weekday_sales df
   \<and> (\<forall>(d, v) \<in> set (weekday_sales df).
         v = mean (map TotalAmount (filter (\<lambda>t. DayOfWeek t = d) df)))"
proof -
  have k: "map fst (weekday_sales df) = days_order"
    by (simp add: weekday_sales_eq comp_def)
  have a: "map fst (weekday_sales df)
     = [''Monday'', ''Tuesday'', ''Wednesday'', ''Thursday'', ''Friday'', ''Sunday'']"
    unfolding k by (simp add: days_order_def)
  have "fst ` set (weekday_sales df) = set (map fst (weekday_sales df))" by simp
  then have b: "''Saturday'' \<notin> fst ` set (weekday_sales df)"
    unfolding a by simp
  have f: "filter (\<lambda>t. DayOfWeek t = d) (filter (\<lambda>t. DayOfWeek t \<noteq> ''Saturday'') df)
             = filter (\<lambda>t. DayOfWeek t = d) df" if "d \<in> set days_order" for d
  proof -
    from that have "d \<noteq> ''Saturday''" by (auto simp: days_order_def)
    then show ?thesis by (induction df) auto
  qed
  have c: "weekday_sales (filter (\<lambda>t. DayOfWeek t \<noteq> ''Saturday'') df) = weekday_sales df"
    unfolding weekday_sales_eq by (rule map_cong) (simp_all only: f)
  have d: "\<forall>(d, v) \<in> set (weekday_sales df).
         v = mean (map TotalAmount (filter (\<lambda>t. DayOfWeek t = d) df))"
    by (auto simp: weekday_sales_eq)
  from a b c d show ?thesis by (intro conjI)
qed

theorem weekday_sales_keys_witness:
  "weekday_sales example_shop_sales
     = [(''Monday'', Some 10), (''Tuesday'', None), (''Wednesday'', Some (153 / 10)),
        (''Thursday'', None), (''Friday'', None), (''Sunday'', Some 12)]
   \<and> map DayOfWeek example_shop_sales = [''Wednesday'', ''Saturday'', ''Monday'', ''Sunday'']
   \<and> ''Saturday'' \<notin> fst ` set (weekday_sales example_shop_sales)
   \<and> weekday_sales (filter (\<lambda>t. DayOfWeek t \<noteq> ''Saturday'') example_shop_sales)
     = weekday_sales example_shop_sales"
proof -
  have v: "weekday_sales example_shop_sales
     = [(''Monday'', Some 10), (''Tuesday'', None), (''Wednesday'', Some (153 / 10)),
        (''Thursday'', None), (''Friday'', None), (''Sunday'', Some 12)]"
    by code_simp
  have s: "map DayOfWeek example_shop_sales
     = [''Wednesday'', ''Saturday'', ''Monday'', ''Sunday'']"
    by code_simp
  note w = weekday_sales_keys [of example_shop_sales]
  from w have a: "''Saturday'' \<notin> fst ` set (weekday_sales example_shop_sales)"
    by (elim conjE)
  from w have b: "weekday_sales (filter (\<lambda>t. DayOfWeek t \<noteq> ''Saturday'') example_shop_sales)
     = weekday_sales example_shop_sales"
    by (elim conjE)
  from v s a b show ?thesis by (intro conjI)
qed

subsection \<open>When the file cannot be read\<close>

text \<open>Claim C8 says that \<open>load_data\<close> returns two empty frames, instead of raising,
  whenever the file cannot be located or read.  The function catches
  \<open>FileNotFoundError\<close> only: a file that is there but cannot be read makes
  \<open>read_csv\<close> raise another exception, which \<open>load_data\<close> passes on.\<close>

theorem load_data_unreadable:
  "load_data (Inl PermissionError) = Inl PermissionError
   \<and> load_data (Inl PermissionError) \<noteq> Inr ([], [])
   \<and> dashboard (Inl PermissionError) [] = Raised PermissionError"
  by (simp add: load_data_def dashboard_def)

text \<open>Claim C8, amended: when the file is not found, \<open>load_data\<close> returns two empty
  frames instead of raising, and the script stops; every other exception of the read
  is raised to the caller; and a read that succeeds gives the whole of both frames.\<close>

theorem load_data_file_not_found:
  "load_data (Inl FileNotFoundError) = Inr ([], [])
   \<and> dashboard (Inl FileNotFoundError) selected_countries = Stopped
   \<and> (e \<noteq> FileNotFoundError \<longrightarrow>
        load_data (Inl e) = Inl e \<and> dashboard (Inl e) selected_countries = Raised e)
   \<and> load_data (Inr df) = Inr (split_sales (df_clean df), split_returns (df_clean df))"
  by (simp add: load_data_Inl dashboard_def)

theorem load_data_file_not_found_witness:
  "EmptyDataError \<noteq> FileNotFoundError
   \<and> load_data (Inl EmptyDataError) = Inl EmptyDataError
   \<and> dashboard (Inl EmptyDataError) [''United Kingdom''] = Raised EmptyDataError
   \<and> dashboard (Inl FileNotFoundError) [''United Kingdom''] = Stopped
   \<and> load_data (Inr example_rows) = Inr (example_sales, example_returns)"
proof -
  have l: "Inr (split_sales (df_clean example_rows), split_returns (df_clean example_rows))
            = (Inr (example_sales, example_returns) :: exn + txn list \<times> txn list)"
    by code_simp
  note f = load_data_file_not_found [of "[''United Kingdom'']" EmptyDataError example_rows]
  have d: "EmptyDataError \<noteq> FileNotFoundError" by simp
  from f d have "load_data (Inl EmptyDataError) = Inl EmptyDataError
      \<and> dashboard (Inl EmptyDataError) [''United Kingdom''] = Raised EmptyDataError"
    by (elim conjE impE) (assumption, intro conjI)
  moreover from f have "dashboard (Inl FileNotFoundError) [''United Kingdom''] = Stopped"
    by (elim conjE)
  moreover from f l have "load_data (Inr example_rows) = Inr (example_sales, example_returns)"
    by (elim conjE) (simp only:)
  ultimately show ?thesis using d by (intro conjI) (elim conjE, assumption)+

qed

subsection \<open>Q7: recency\<close>

lemma series_max_eq: "series_max xs = (if xs = [] then None else Some (Max (set xs)))"
proof (induction xs)
  case Nil
  show ?case by simp
next
  case (Cons x xs)
  show ?case
  proof (cases "xs = []")
    case True
    then show ?thesis by simp
  next
    case False
    then have "Max (set (x # xs)) = max x (Max (set xs))" by simp
    with Cons False show ?thesis by simp
  qed
qed

lemma snapshot_date_eq:
  "df \<noteq> [] \<Longrightarrow> snapshot_date df = Some (Max (InvoiceDate ` set df) + one_day)"
  by (simp add: snapshot_date_def series_max_eq)

lemma rfm_rows:
  "r \<in> set (rfm df) \<longleftrightarrow>
     (\<exists>i < length (groupby Customer_ID df).
        r = rfm_agg (snapshot_date df) (i, groupby Customer_ID df ! i))"
  by (auto simp: rfm_def in_set_enumerate_eq image_iff Bex_def)

lemma groupby_nth:
  assumes "i < length (groupby key df)"
  shows "\<exists>k \<in> key ` set df. groupby key df ! i = (k, filter (\<lambda>r. key r = k) df)"
proof -
  from assms have "groupby key df ! i \<in> set (groupby key df)" by simp
  then show ?thesis by (auto simp: set_groupby)
qed

lemma map_rfm_Customer_ID: "map rfm_Customer_ID (rfm df) = sort (remdups (map Customer_ID df))"
proof -
  have "rfm_Customer_ID (rfm_agg s p) = fst (snd p)" for s p
    by (cases p) (simp add: rfm_agg_def)
  then have "map rfm_Customer_ID (rfm df) = map (fst \<circ> snd) (enumerate 0 (groupby Customer_ID df))"
    by (simp add: rfm_def)
  also have "\<dots> = map fst (map snd (enumerate 0 (groupby Customer_ID df)))"
    by (simp only: map_map)
  also have "\<dots> = sort (remdups (map Customer_ID df))"
    by (simp only: map_snd_enumerate map_fst_groupby)
  finally show ?thesis .
qed

lemma map_rfm_Index: "map rfm_Index (rfm df) = [0..<length (rfm df)]"
proof -
  have "rfm_Index (rfm_agg s p) = fst p" for s p
    by (cases p) (simp add: rfm_agg_def)
  then have "rfm_Index \<circ> rfm_agg (snapshot_date df) = fst" by (simp add: fun_eq_iff)
  then have "map rfm_Index (rfm df) = map fst (enumerate 0 (groupby Customer_ID df))"
    by (simp only: rfm_def map_map)
  also have "\<dots> = [0..<length (groupby Customer_ID df)]"
    by (simp only: map_fst_enumerate add_0)
  also have "length (groupby Customer_ID df) = length (rfm df)"
    by (simp only: rfm_def length_map length_enumerate)
  finally show ?thesis .
qed

text \<open>Claim C4: on a sales frame that is not empty, the snapshot date is the latest
  invoice date plus one day, the table has one row for each customer, and the recency
  of a customer is the number of whole days from the customer's latest invoice date to
  the snapshot date, which is at least 1.\<close>

theorem rfm_recency:
  assumes "df \<noteq> []"
  shows "snapshot_date df = Some (Max (InvoiceDate ` set df) + one_day)
       \<and> rfm_Customer_ID ` set (rfm df) = Customer_ID ` set df
       \<and> distinct (map rfm_Customer_ID (rfm df))
       \<and> (\<forall>r \<in> set (rfm df). \<exists>d.
             Recency r = Some d
             \<and> d = (Max (InvoiceDate ` set df) + one_day
                    - Max (InvoiceDate ` {t \<in> set df. Customer_ID t = rfm_Customer_ID r}))
                   div one_day
             \<and> 1 \<le> d)"
proof -
  let ?snap = "Max (InvoiceDate ` set df) + one_day"
  have s: "snapshot_date df = Some ?snap" using assms by (rule snapshot_date_eq)
  have "set (map rfm_Customer_ID (rfm df)) = set (map Customer_ID df)"
    by (simp only: map_rfm_Customer_ID set_sort set_remdups)
  then have c: "rfm_Customer_ID ` set (rfm df) = Customer_ID ` set df" by simp
  have d: "distinct (map rfm_Customer_ID (rfm df))"
    by (simp only: map_rfm_Customer_ID distinct_sort distinct_remdups)
  have r: "\<exists>d. Recency r = Some d
             \<and> d = (?snap - Max (InvoiceDate ` {t \<in> set df. Customer_ID t = rfm_Customer_ID r}))
                   div one_day
             \<and> 1 \<le> d" if "r \<in> set (rfm df)" for r
  proof -
    from that obtain i where i: "i < length (groupby Customer_ID df)"
      "r = rfm_agg (snapshot_date df) (i, groupby Customer_ID df ! i)"
      by (auto simp: rfm_rows)
    from groupby_nth [OF i(1)] obtain k where k: "k \<in> Customer_ID ` set df"
      "groupby Customer_ID df ! i = (k, filter (\<lambda>t. Customer_ID t = k) df)" by blast
    let ?g = "filter (\<lambda>t. Customer_ID t = k) df"
    have id: "rfm_Customer_ID r = k" using i(2) k(2) by (simp add: rfm_agg_def)
    have ne: "?g \<noteq> []" using k(1) by (auto simp: filter_empty_conv)
    have gs: "set ?g = {t \<in> set df. Customer_ID t = k}" by auto
    let ?m = "Max (InvoiceDate ` set ?g)"
    have rec: "Recency r = Some ((?snap - ?m) div one_day)"
      using i(2) k(2) ne s by (simp add: rfm_agg_def timedelta_days_def series_max_eq)
    have "set ?g \<noteq> {}" using ne by (simp only: set_empty not_False_eq_True)
    then have "?m \<in> InvoiceDate ` set ?g" by (intro Max_in) simp_all
    then have "?m \<in> InvoiceDate ` set df" by auto
    then have "?m \<le> Max (InvoiceDate ` set df)" by (intro Max_ge) auto
    then have "one_day \<le> ?snap - ?m" by simp
    then have "one_day div one_day \<le> (?snap - ?m) div one_day"
      by (intro zdiv_mono1) (simp_all add: one_day_def)
    then have "1 \<le> (?snap - ?m) div one_day" by (simp add: one_day_def)
    with rec show ?thesis unfolding id gs by simp
  qed
  from s c d r show ?thesis by blast
qed

theorem rfm_recency_witness:
  "example_shop_sales \<noteq> []
   \<and> snapshot_date example_shop_sales = Some 1291732200
   \<and> map (\<lambda>r. (rfm_Customer_ID r, Recency r)) (rfm example_shop_sales)
     = [(''12583'', Some 2), (''17850'', Some 1)]
   \<and> rfm_Customer_ID ` set (rfm example_shop_sales) = Customer_ID ` set example_shop_sales"
proof -
  have ne: "example_shop_sales \<noteq> []" by code_simp
  have s: "snapshot_date example_shop_sales = Some 1291732200" by code_simp
  have v: "map (\<lambda>r. (rfm_Customer_ID r, Recency r)) (rfm example_shop_sales)
     = [(''12583'', Some 2), (''17850'', Some 1)]" by code_simp
  from rfm_recency [OF ne]
  have "rfm_Customer_ID ` set (rfm example_shop_sales) = Customer_ID ` set example_shop_sales"
    by (elim conjE)
  with ne s v show ?thesis by (intro conjI)
qed

subsection \<open>Q9: the Pareto table\<close>

lemma length_cumsum_from: "length (cumsum_from a xs) = length xs"
  by (induction xs arbitrary: a) simp_all

lemma cumsum_from_nth:
  "i < length xs \<Longrightarrow> cumsum_from a xs ! i = a + sum_list (take (Suc i) xs)"
proof (induction xs arbitrary: a i)
  case Nil
  then show ?case by simp
next
  case (Cons x xs)
  show ?case
  proof (cases i)
    case 0
    then show ?thesis by simp
  next
    case (Suc j)
    with Cons.prems have "j < length xs" by simp
    from Cons.IH [OF this, of "a + x"] Suc show ?thesis by (simp add: add.assoc)
  qed
qed

lemma length_cumsum [simp]: "length (cumsum xs) = length xs"
  by (simp add: cumsum_def length_cumsum_from)

lemma cumsum_nth: "i < length xs \<Longrightarrow> cumsum xs ! i = sum_list (take (Suc i) xs)"
  by (simp add: cumsum_def cumsum_from_nth)

lemma sum_list_insort_key:
  "sum_list (map g (insort_key f x xs)) = (g x :: rat) + sum_list (map g xs)"
  by (induction xs) (simp_all add: add.left_commute)

lemma sum_list_sort_key: "sum_list (map g (sort_key f xs)) = (sum_list (map g xs) :: rat)"
  by (induction xs) (simp_all add: sum_list_insort_key)

lemma length_sort_values_desc [simp]: "length (sort_values_desc rows) = length rows"
  by (simp add: sort_values_desc_def)

lemma set_sort_values_desc [simp]: "set (sort_values_desc rows) = set rows"
  by (simp add: sort_values_desc_def)

lemma sum_sort_values_desc:
  "sum_list (map Monetary (sort_values_desc rows)) = sum_list (map Monetary rows)"
  by (simp add: sort_values_desc_def sum_list_sort_key)



text \<open>The columns of the i-th row of the sorted table.\<close>

lemma rfm_sorted_nth:
  assumes "i < length rows"
  shows "rfm_sorted rows ! i =
     rfm_row.extend (sort_values_desc rows ! i)
       \<lparr> Cumulative_Revenue = sum_list (take (Suc i) (map Monetary (sort_values_desc rows))),
         Revenue_Pct = fdiv (100 * sum_list (take (Suc i) (map Monetary (sort_values_desc rows))))
                         (sum_list (map Monetary rows)),
         Customer_Rank_Pct = at_label (rank_series (length rows))
                               (rfm_Index (sort_values_desc rows ! i)) \<rparr>"
proof -
  let ?s = "sort_values_desc rows"
  have l: "i < length (zip ?s (cumsum (map Monetary ?s)))" using assms by simp
  have z: "zip ?s (cumsum (map Monetary ?s)) ! i = (?s ! i, cumsum (map Monetary ?s) ! i)"
    using assms by simp
  have c: "cumsum (map Monetary ?s) ! i = sum_list (take (Suc i) (map Monetary ?s))"
    using assms by (simp add: cumsum_nth)
  show ?thesis
    unfolding rfm_sorted_def Let_def nth_map [OF l] z c pareto_row_of_def
      sum_sort_values_desc length_sort_values_desc
    by simp
qed

lemma rfm_sorted_fields:
  assumes "i < length rows"
  shows "Monetary (rfm_sorted rows ! i) = Monetary (sort_values_desc rows ! i)"
    and "rfm_Customer_ID (rfm_sorted rows ! i) = rfm_Customer_ID (sort_values_desc rows ! i)"
    and "Cumulative_Revenue (rfm_sorted rows ! i)
           = sum_list (take (Suc i) (map Monetary (sort_values_desc rows)))"
    and "Revenue_Pct (rfm_sorted rows ! i)
           = fdiv (100 * sum_list (take (Suc i) (map Monetary (sort_values_desc rows))))
               (sum_list (map Monetary rows))"
    and "Customer_Rank_Pct (rfm_sorted rows ! i)
           = at_label (rank_series (length rows)) (rfm_Index (sort_values_desc rows ! i))"
  by (simp_all add: rfm_sorted_nth [OF assms] rfm_row.defs)

lemma rank_series_nth:
  "k < n \<Longrightarrow> at_label (rank_series n) k = Some (100 * (of_nat k + 1) / of_nat n)"
  by (simp add: at_label_def rank_series_def)

lemma rfm_Index_less:
  assumes "r \<in> set (rfm df)"
  shows "rfm_Index r < length (rfm df)"
proof -
  from assms have "rfm_Index r \<in> set (map rfm_Index (rfm df))" by simp
  then show ?thesis by (simp only: map_rfm_Index set_upt atLeastLessThan_iff)
qed


lemma customer_rank_pct_by_label:
  assumes "i < length (rfm df)"
  shows "Customer_Rank_Pct (rfm_sorted (rfm df) ! i)
           = Some (100 * (of_nat (rfm_Index (sort_values_desc (rfm df) ! i)) + 1)
                   / of_nat (length (rfm df)))"
proof -
  have "sort_values_desc (rfm df) ! i \<in> set (sort_values_desc (rfm df))"
    using assms by (intro nth_mem) simp
  then have "sort_values_desc (rfm df) ! i \<in> set (rfm df)" by simp
  then have "rfm_Index (sort_values_desc (rfm df) ! i) < length (rfm df)"
    by (rule rfm_Index_less)
  then show ?thesis by (simp add: rfm_sorted_fields(5) [OF assms] rank_series_nth)
qed

text \<open>Claim C5 says that the i-th row in sorted order has the rank percentage
  100 * i / n.  Evaluated on a file with two customers of the United Kingdom, 100 who
  spends 10 and 200 who spends 30, the table lists customer 200 first, with rank
  percentage 100, and customer 100 second, with rank percentage 50.\<close>

theorem pareto_rank_follows_label:
  "map (\<lambda>r. (rfm_Customer_ID r, Monetary r, Customer_Rank_Pct r))
     (rfm_sorted (rfm (shown_sales example_two_customers)))
   = [(''200'', 30, Some 100), (''100'', 10, Some 50)]"
  by code_simp





end
